theory Spec2Isabelle
  imports Complex_Main "HOL-Library.AList"
begin

section \<open>Errors raised by the solver\<close>

datatype error =
  AssertionError | ZeroDivisionError | KeyError | IndexError | SyntaxError | AttributeError
| TypeError

section \<open>Derivation trees\<close>

text \<open>
  A node carries a symbol, its children (\<open>None\<close> for an open node, the Python
  \<^verbatim>\<open>children=None\<close>) and an identifier.
\<close>

datatype DerivationTree =
  DerivationTree (tvalue: string) (children: "DerivationTree list option") (tid: nat)

type_synonym Path = "nat list"

text \<open>\<^verbatim>\<open>is_nonterminal\<close>: the symbol starts with an angle-bracketed name without
  blanks or nested brackets.\<close>

definition is_nonterminal :: "string \<Rightarrow> bool" where
  "is_nonterminal s =
     (case s of
        [] \<Rightarrow> False
      | c # rest \<Rightarrow>
          c = CHR ''<'' \<and>
          (case dropWhile (\<lambda>d. d \<noteq> CHR ''<'' \<and> d \<noteq> CHR ''>'' \<and> d \<noteq> CHR '' '') rest of
             [] \<Rightarrow> False
           | d # _ \<Rightarrow> d = CHR ''>''))"

text \<open>Modelled from the spec: \<open>paths()\<close>, the sequence of all \<open>(path, node)\<close> pairs of a
  tree, paths being tuples of child indices (class \<open>DerivationTree\<close> is not part of the
  solver module).\<close>

fun paths :: "DerivationTree \<Rightarrow> (Path \<times> DerivationTree) list"
  and paths_from :: "nat \<Rightarrow> DerivationTree list \<Rightarrow> (Path \<times> DerivationTree) list" where
  "paths (DerivationTree v None i) = [([], DerivationTree v None i)]"
| "paths (DerivationTree v (Some cs) i) = ([], DerivationTree v (Some cs) i) # paths_from 0 cs"
| "paths_from k [] = []"
| "paths_from k (c # cs) = map (\<lambda>(p, s). (k # p, s)) (paths c) @ paths_from (Suc k) cs"

text \<open>Modelled from the spec: \<open>find_node\<close>, the path of the node that has the identity of
  the given tree, if there is one.\<close>

definition find_node :: "DerivationTree \<Rightarrow> DerivationTree \<Rightarrow> Path option" where
  "find_node t needle = map_option fst (find (\<lambda>(p, s). tid s = tid needle) (paths t))"

section \<open>Variables and SMT atoms\<close>

text \<open>Modelled from the spec: a variable is a constant or a bound variable, each with a
  nonterminal type or the numeric sort.\<close>

datatype Variable =
  Constant (name: string) (n_type: string)
| BoundVariable (name: string) (n_type: string)

definition NUMERIC_NTYPE :: string where
  "NUMERIC_NTYPE = ''NUM''"

definition is_numeric :: "Variable \<Rightarrow> bool" where
  "is_numeric v = (n_type v = NUMERIC_NTYPE)"

fun is_Constant :: "Variable \<Rightarrow> bool" where
  "is_Constant (Constant _ _) = True"
| "is_Constant (BoundVariable _ _) = False"

text \<open>The terms handed to the SMT backend, as far as the solver builds them.\<close>

datatype regex =
  Re string
| ReRange string string
| ReStar regex
| ReUnion regex regex
| ReConcat "regex list"
| ReExtracted string

datatype z3 =
  BoolVal bool
| Z3Atom string
| Z3InRe string regex
| Z3NotEq Variable string
| z3_or "z3 list"
| Z3Not z3

fun z3_not :: "z3 \<Rightarrow> z3" where
  "z3_not (BoolVal b) = BoolVal (\<not> b)"
| "z3_not e = Z3Not e"

datatype z3_result = sat | unsat | unknown

text \<open>Modelled from the spec: an SMT atom is a quantifier-free predicate together with
  the mapping \<open>substitutions\<close> from instantiated variables to sub-trees.\<close>

record SMTFormula =
  formula :: z3
  free_variables :: "Variable list"
  instantiated_variables :: "Variable list"
  substitutions :: "(Variable \<times> DerivationTree) list"

section \<open>The SMT bridge: \<open>solve_quantifier_free_formula\<close>\<close>

text \<open>
  The services the method calls: the regular approximation of a nonterminal, the
  tokenizer of rendered trees, the rendering of a tree, the SMT backend (result and
  model) and the Earley parser. The parser receives the next free node identifier and
  returns the one after its tree.
\<close>

record smt_env =
  extract_regular_expression :: "string \<Rightarrow> regex"
  split_str_with_nonterminals :: "string \<Rightarrow> string list"
  tree_str :: "DerivationTree \<Rightarrow> string"
  z3_solve :: "z3 list \<Rightarrow> z3_result \<times> (string \<Rightarrow> string) option"
  parse :: "nat \<Rightarrow> string \<Rightarrow> string \<Rightarrow> error + (DerivationTree \<times> nat)"

type_synonym solution = "((Variable + DerivationTree) \<times> DerivationTree) list"
type_synonym internal_solution = "(Variable \<times> string) list"

text \<open>Python dictionaries are association lists with distinct keys; two of them are
  equal when they hold the same entries.\<close>

definition dict_eq :: "('k \<times> 'v) list \<Rightarrow> ('k \<times> 'v) list \<Rightarrow> bool" where
  "dict_eq a b = (set a = set b)"

definition dict_in :: "('k \<times> 'v) list \<Rightarrow> ('k \<times> 'v) list list \<Rightarrow> bool" where
  "dict_in d ds = list_ex (dict_eq d) ds"

definition dict_union :: "('k \<times> 'v) list \<Rightarrow> ('k \<times> 'v) list \<Rightarrow> ('k \<times> 'v) list" where
  "dict_union d1 d2 = fold (\<lambda>(k, v). AList.update k v) d2 d1"

definition get_conflicts :: "SMTFormula list \<Rightarrow> SMTFormula list" where
  "get_conflicts smt_formulas =
     map snd (filter
       (\<lambda>(fidx, f).
          list_ex (\<lambda>(_, t).
            list_ex (\<lambda>(ofidx, other).
               fidx \<noteq> ofidx \<and>
               list_ex (\<lambda>(_, ot). ot \<noteq> t \<and> find_node ot t \<noteq> None) (substitutions other))
              (enumerate 0 smt_formulas))
            (substitutions f))
       (enumerate 0 smt_formulas))"

record qf_problem =
  smt_formulas :: "SMTFormula list"
  tree_substitutions :: "(Variable \<times> DerivationTree) list"
  constants :: "Variable list"

definition qf_prepare :: "SMTFormula list \<Rightarrow> error + qf_problem" where
  "qf_prepare fs0 =
     (let conflicts = get_conflicts fs0 in
      if conflicts \<noteq> [] \<and> get_conflicts conflicts \<noteq> [] then Inl AssertionError
      else
        let fs = (if conflicts \<noteq> [] then conflicts else fs0) in
        Inr \<lparr> smt_formulas = fs,
              tree_substitutions = fold (\<lambda>f d. dict_union d (substitutions f)) fs [],
              constants = remdups (concat (map (\<lambda>f. free_variables f @ instantiated_variables f) fs)) \<rparr>)"

definition constant_regex :: "smt_env \<Rightarrow> qf_problem \<Rightarrow> Variable \<Rightarrow> error + regex" where
  "constant_regex E P constant =
     (if is_numeric constant then
        Inr (ReUnion (Re ''0'') (ReConcat [ReRange ''1'' ''9'', ReStar (ReRange ''0'' ''9'')]))
      else
        (case map_of (tree_substitutions P) constant of
           Some t \<Rightarrow>
             (let regexes =
                    map (\<lambda>s. if is_nonterminal s then extract_regular_expression E s else Re s)
                        (split_str_with_nonterminals E (tree_str E t))
              in if regexes = [] then Inl AssertionError
                 else Inr (if length regexes > 1 then ReConcat regexes else hd regexes))
         | None \<Rightarrow> Inr (extract_regular_expression E (n_type constant))))"

fun regex_constraints :: "smt_env \<Rightarrow> qf_problem \<Rightarrow> Variable list \<Rightarrow> error + z3 list" where
  "regex_constraints E P [] = Inr []"
| "regex_constraints E P (c # cs) =
     (case constant_regex E P c of
        Inl e \<Rightarrow> Inl e
      | Inr r \<Rightarrow>
          (case regex_constraints E P cs of
             Inl e \<Rightarrow> Inl e
           | Inr rs \<Rightarrow> Inr (Z3InRe (name c) r # rs)))"

text \<open>The clause that excludes one previous solution: a single disjunction with one
  inequality for every constant of that solution.\<close>

definition blocking_clause :: "internal_solution \<Rightarrow> z3" where
  "blocking_clause prev_solution = z3_or (map (\<lambda>(constant, string_val). Z3NotEq constant string_val) prev_solution)"

definition qf_formulas :: "smt_env \<Rightarrow> qf_problem \<Rightarrow> internal_solution list \<Rightarrow> error + z3 list" where
  "qf_formulas E P internal_solutions =
     (case regex_constraints E P (constants P) of
        Inl e \<Rightarrow> Inl e
      | Inr rs \<Rightarrow> Inr (rs @ map blocking_clause internal_solutions @ map formula (smt_formulas P)))"

fun new_solution ::
  "smt_env \<Rightarrow> qf_problem \<Rightarrow> (string \<Rightarrow> string) \<Rightarrow> Variable list \<Rightarrow> nat \<Rightarrow> solution
     \<Rightarrow> error + (solution \<times> nat)" where
  "new_solution E P m [] nid acc = Inr (acc, nid)"
| "new_solution E P m (c # cs) nid acc =
     (let val = m (name c);
          key = (case map_of (tree_substitutions P) c of Some t \<Rightarrow> Inr t | None \<Rightarrow> Inl c)
      in if is_numeric c then
           new_solution E P m cs (Suc nid) (AList.update key (DerivationTree val (Some []) nid) acc)
         else
           (case parse E nid (n_type c) val of
              Inl e \<Rightarrow> Inl e
            | Inr (t, nid') \<Rightarrow> new_solution E P m cs nid' (AList.update key t acc)))"

definition new_internal_solution :: "qf_problem \<Rightarrow> (string \<Rightarrow> string) \<Rightarrow> internal_solution" where
  "new_internal_solution P m = map (\<lambda>c. (c, m (name c))) (constants P)"

text \<open>The state of the enumeration loop. \<open>queries\<close> records the calls of the SMT backend
  in the order they are made; \<open>next_id\<close> is the class-wide identifier counter.\<close>

record qf_state =
  solutions :: "solution list"
  internal_solutions :: "internal_solution list"
  queries :: "z3 list list"
  next_id :: nat

text \<open>\<^verbatim>\<open>for _ in range(self.max_number_smt_instantiations)\<close>: the first argument counts
  the iterations that are left.\<close>

fun qf_loop :: "smt_env \<Rightarrow> qf_problem \<Rightarrow> nat \<Rightarrow> qf_state \<Rightarrow> error + qf_state" where
  "qf_loop E P 0 st = Inr st"
| "qf_loop E P (Suc n) st =
     (case qf_formulas E P (internal_solutions st) of
        Inl e \<Rightarrow> Inl e
      | Inr formulas \<Rightarrow>
          (let st1 = st\<lparr>queries := queries st @ [formulas]\<rparr> in
           case z3_solve E formulas of
             (solver_result, maybe_model) \<Rightarrow>
               if solver_result \<noteq> sat then
                 (if solutions st = [] then Inr (st1\<lparr>solutions := []\<rparr>) else Inr st1)
               else
                 (case maybe_model of
                    None \<Rightarrow> Inl AssertionError
                  | Some m \<Rightarrow>
                      (case new_solution E P m (constants P) (next_id st) [] of
                         Inl e \<Rightarrow> Inl e
                       | Inr (sol, nid) \<Rightarrow>
                           if dict_in sol (solutions st) then Inr (st1\<lparr>next_id := nid\<rparr>)
                           else qf_loop E P n
                                  (st1\<lparr>solutions := solutions st @ [sol],
                                       internal_solutions :=
                                         internal_solutions st @ [new_internal_solution P m],
                                       next_id := nid\<rparr>)))))"

definition qf_initial :: "nat \<Rightarrow> qf_state" where
  "qf_initial nid = \<lparr> solutions = [], internal_solutions = [], queries = [], next_id = nid \<rparr>"

definition qf_run :: "smt_env \<Rightarrow> int \<Rightarrow> nat \<Rightarrow> SMTFormula list \<Rightarrow> error + qf_state" where
  "qf_run E max_number_smt_instantiations nid fs =
     (case qf_prepare fs of
        Inl e \<Rightarrow> Inl e
      | Inr P \<Rightarrow> qf_loop E P (nat max_number_smt_instantiations) (qf_initial nid))"

definition solve_quantifier_free_formula ::
  "smt_env \<Rightarrow> int \<Rightarrow> nat \<Rightarrow> SMTFormula list \<Rightarrow> error + solution list" where
  "solve_quantifier_free_formula E max_number_smt_instantiations nid fs =
     map_sum id solutions (qf_run E max_number_smt_instantiations nid fs)"



text \<open>Every recorded assignment vector comes from the model that the backend returned
  for the query of its iteration, and so does the solution at the same position.\<close>

definition qf_models :: "smt_env \<Rightarrow> qf_problem \<Rightarrow> qf_state \<Rightarrow> bool" where
  "qf_models E P st =
     (\<forall>k < length (internal_solutions st).
        \<exists>m n n'. z3_solve E (queries st ! k) = (sat, Some m) \<and>
          internal_solutions st ! k = new_internal_solution P m \<and>
          new_solution E P m (constants P) n [] = Inr (solutions st ! k, n'))"





subsection \<open>A small instance: one constant, a backend with two models\<close>

definition ex_x :: Variable where "ex_x = Constant ''x'' ''<var>''"

definition ex_atom :: "z3 \<Rightarrow> SMTFormula" where
  "ex_atom b = \<lparr> formula = b, free_variables = [ex_x], instantiated_variables = [], substitutions = [] \<rparr>"

fun is_blocking :: "z3 \<Rightarrow> bool" where
  "is_blocking (z3_or _) = True"
| "is_blocking _ = False"

definition ex_z3_solve :: "z3 list \<Rightarrow> z3_result \<times> (string \<Rightarrow> string) option" where
  "ex_z3_solve q =
     (if BoolVal False \<in> set q then (unsat, None)
      else if length (filter is_blocking q) = 0 then (sat, Some (\<lambda>_. ''a''))
      else if length (filter is_blocking q) = 1 then (sat, Some (\<lambda>_. ''b''))
      else (unsat, None))"

definition ex_smt_env :: smt_env where
  "ex_smt_env = \<lparr> extract_regular_expression = ReExtracted,
       split_str_with_nonterminals = (\<lambda>s. [s]),
       tree_str = tvalue,
       z3_solve = ex_z3_solve,
       parse = (\<lambda>nid nt v. Inr (DerivationTree nt (Some [DerivationTree v (Some []) (Suc nid)]) nid, nid + 2)) \<rparr>"


definition ex_tree :: "string \<Rightarrow> nat \<Rightarrow> DerivationTree" where
  "ex_tree v nid = DerivationTree ''<var>'' (Some [DerivationTree v (Some []) (Suc nid)]) nid"

definition ex_state :: qf_state where
  "ex_state = \<lparr> solutions = [[(Inl ex_x, ex_tree ''a'' 0)], [(Inl ex_x, ex_tree ''b'' 2)]],
                 internal_solutions = [[(ex_x, ''a'')], [(ex_x, ''b'')]],
                 queries = [], next_id = 4 \<rparr>"



section \<open>Symbol costs: \<open>compute_symbol_costs\<close>\<close>

text \<open>
  The grammar graph of the library the solver builds on: every nonterminal has one
  choice node for each of its alternatives, and the children of a choice node are the
  symbols of that alternative. A choice node is an instance of the nonterminal node
  class; its symbol is the nonterminal followed by \<^verbatim>\<open>-choice-\<close> and the number of the
  alternative, counted from one, so that no choice node carries the symbol of a nonterminal.
\<close>

type_synonym CanonicalGrammar = "(string \<times> string list list) list"

datatype Node =
  NonterminalNode string
| ChoiceNode string nat
| TerminalNode string

fun decimal :: "nat \<Rightarrow> string" where
  "decimal n = (if n < 10 then [char_of (48 + n)] else decimal (n div 10) @ [char_of (48 + n mod 10)])"

declare decimal.simps [simp del]

fun symbol :: "Node \<Rightarrow> string" where
  "symbol (NonterminalNode s) = s"
| "symbol (ChoiceNode s i) = s @ ''-choice-'' @ decimal (Suc i)"
| "symbol (TerminalNode s) = s"

fun is_ChoiceNode :: "Node \<Rightarrow> bool" where
  "is_ChoiceNode (ChoiceNode _ _) = True"
| "is_ChoiceNode _ = False"

fun isinstance_NonterminalNode :: "Node \<Rightarrow> bool" where
  "isinstance_NonterminalNode (TerminalNode _) = False"
| "isinstance_NonterminalNode _ = True"

definition symbol_node :: "string \<Rightarrow> Node" where
  "symbol_node s = (if is_nonterminal s then NonterminalNode s else TerminalNode s)"

fun node_children :: "CanonicalGrammar \<Rightarrow> Node \<Rightarrow> Node list" where
  "node_children g (NonterminalNode s) =
     (case map_of g s of
        None \<Rightarrow> []
      | Some expansions \<Rightarrow> map (ChoiceNode s) [0 ..< length expansions])"
| "node_children g (ChoiceNode s i) =
     (case map_of g s of
        None \<Rightarrow> []
      | Some expansions \<Rightarrow> if i < length expansions then map symbol_node (expansions ! i) else [])"
| "node_children g (TerminalNode s) = []"

definition all_nodes :: "CanonicalGrammar \<Rightarrow> Node list" where
  "all_nodes g =
     remdups (concat (map (\<lambda>(s, expansions).
        NonterminalNode s #
        concat (map (\<lambda>(i, expansion). ChoiceNode s i # map symbol_node expansion)
                    (enumerate 0 expansions))) g))"

definition graph_root :: Node where
  "graph_root = NonterminalNode ''<start>''"

text \<open>\<^verbatim>\<open>get_node\<close> looks a node up by its symbol: for a nonterminal of the grammar this is
  the node of the nonterminal, never one of its choice nodes.\<close>

definition get_node :: "CanonicalGrammar \<Rightarrow> string \<Rightarrow> Node option" where
  "get_node g s = find (\<lambda>n. symbol n = s) (all_nodes g)"

fun visit_children ::
  "nat \<Rightarrow> Node list \<Rightarrow> Node list \<Rightarrow> (Node \<times> nat) list \<Rightarrow> Node list list
     \<Rightarrow> error + ((Node \<times> nat) list \<times> Node list list)" where
  "visit_children cycles_allowed p [] visited queue = Inr (visited, queue)"
| "visit_children cycles_allowed p (child # cs) visited queue =
     (if \<not> isinstance_NonterminalNode child then visit_children cycles_allowed p cs visited queue
      else
        (case map_of visited child of
           None \<Rightarrow> Inl KeyError
         | Some c \<Rightarrow>
             if c > cycles_allowed + 1 then visit_children cycles_allowed p cs visited queue
             else visit_children cycles_allowed p cs
                    (AList.update child (c + 1) visited) (queue @ [p @ [child]])))"

text \<open>The breadth-first enumeration of \<open>all_paths\<close>: \<open>visited\<close> counts, for the whole
  enumeration, how often a node was appended to a path.\<close>

partial_function (option) all_paths_loop ::
  "CanonicalGrammar \<Rightarrow> nat \<Rightarrow> Node option \<Rightarrow> (Node \<times> nat) list \<Rightarrow> Node list list \<Rightarrow> Node list list
     \<Rightarrow> (error + Node list list) option" where
  "all_paths_loop g cycles_allowed to_node visited queue result =
     (case queue of
        [] \<Rightarrow> Some (Inr (map (filter (\<lambda>n. \<not> is_ChoiceNode n)) result))
      | p # queue' \<Rightarrow>
          if Some (last p) = to_node then
            all_paths_loop g cycles_allowed to_node visited queue' (result @ [p])
          else
            (case visit_children cycles_allowed p (node_children g (last p)) visited queue' of
               Inl e \<Rightarrow> Some (Inl e)
             | Inr (visited', queue'') \<Rightarrow>
                 all_paths_loop g cycles_allowed to_node visited' queue'' result))"

declare all_paths_loop.simps [code]

definition all_paths ::
  "CanonicalGrammar \<Rightarrow> Node \<Rightarrow> Node option \<Rightarrow> (error + Node list list) option" where
  "all_paths g from_node to_node =
     all_paths_loop g 1 to_node (map (\<lambda>n. (n, 0)) (all_nodes g)) [[from_node]] []"

definition nonterminal_parents :: "CanonicalGrammar \<Rightarrow> string list" where
  "nonterminal_parents g =
     map fst (filter (\<lambda>(nonterminal, expansions).
        list_ex (\<lambda>expansion. list_ex is_nonterminal expansion) expansions) g)"

text \<open>The correction pass over one path, from its end to its start
  (\<^verbatim>\<open>for idx in reversed(range(1, len(path)))\<close>).\<close>

type_synonym symbol_costs = "(string \<times> int) list"

definition fix_pair :: "string \<Rightarrow> string \<Rightarrow> symbol_costs \<Rightarrow> error + symbol_costs" where
  "fix_pair source target result =
     (case map_of result source of
        None \<Rightarrow> Inl KeyError
      | Some s \<Rightarrow>
          (case map_of result target of
             None \<Rightarrow> Inl KeyError
           | Some t \<Rightarrow> if s \<le> t then Inr (AList.update source (t + 1) result) else Inr result))"

fun fix_path :: "string list \<Rightarrow> symbol_costs \<Rightarrow> error + symbol_costs" where
  "fix_path (source # target # rest) result =
     (case fix_path (target # rest) result of
        Inl e \<Rightarrow> Inl e
      | Inr result' \<Rightarrow> fix_pair source target result')"
| "fix_path _ result = Inr result"

fun fix_paths :: "Node list list \<Rightarrow> symbol_costs \<Rightarrow> error + symbol_costs" where
  "fix_paths [] result = Inr result"
| "fix_paths (path # ps) result =
     (case fix_path (map symbol path) result of
        Inl e \<Rightarrow> Inl e
      | Inr result' \<Rightarrow> fix_paths ps result')"

fun correct_costs :: "CanonicalGrammar \<Rightarrow> string list \<Rightarrow> symbol_costs \<Rightarrow> (error + symbol_costs) option" where
  "correct_costs g [] result = Some (Inr result)"
| "correct_costs g (nonterminal_parent # rest) result =
     (case all_paths g graph_root (get_node g nonterminal_parent) of
        None \<Rightarrow> None
      | Some (Inl e) \<Rightarrow> Some (Inl e)
      | Some (Inr ps) \<Rightarrow>
          (case fix_paths ps result of
             Inl e \<Rightarrow> Some (Inl e)
           | Inr result' \<Rightarrow> correct_costs g rest result'))"

text \<open>The costs before the correction come from two expansions of the grammar fuzzer;
  they are the second argument.\<close>

definition compute_symbol_costs :: "CanonicalGrammar \<Rightarrow> symbol_costs \<Rightarrow> (error + symbol_costs) option" where
  "compute_symbol_costs g initial = correct_costs g (nonterminal_parents g) initial"

subsection \<open>A grammar with two mutually recursive nonterminals\<close>

text \<open>
  \<^verbatim>\<open><start> ::= <a> | <b>;  <a> ::= <b> | "x";  <b> ::= <a> | "y"\<close>.
  The minimal expansions are \<open><a> \<rightarrow> x\<close>, \<open><b> \<rightarrow> y\<close> and \<open><start> \<rightarrow> <a> \<rightarrow> x\<close>
  (or through \<open><b>\<close>), with one, one and two nonterminal alternatives at their nodes:
  the costs before the correction are 1, 1 and 3.
\<close>

definition ex_grammar :: CanonicalGrammar where
  "ex_grammar = [(''<start>'', [[''<a>''], [''<b>'']]),
                 (''<a>'', [[''<b>''], [''x'']]),
                 (''<b>'', [[''<a>''], [''y'']])]"

definition ex_initial_costs :: symbol_costs where
  "ex_initial_costs = [(''<start>'', 3), (''<a>'', 1), (''<b>'', 1)]"

subsection \<open>A grammar without cycles in which one nonterminal has four parents\<close>

text \<open>
  \<^verbatim>\<open><start> ::= <p1> | <p2> | <p3> | <p4>;  <pi> ::= <x> | "t";  <x> ::= <y>;  <y> ::= "a"\<close>.
  The minimal expansions are \<open><y> \<rightarrow> a\<close>, \<open><x> \<rightarrow> <y> \<rightarrow> a\<close>, \<open><pi> \<rightarrow> t\<close> and
  \<open><start> \<rightarrow> <p1> \<rightarrow> t\<close>; the numbers of alternatives with a nonterminal along them are
  0, 1, 1 and 4 + 1: the costs before the correction.
\<close>

definition acyclic_grammar :: CanonicalGrammar where
  "acyclic_grammar =
     [(''<start>'', [[''<p1>''], [''<p2>''], [''<p3>''], [''<p4>'']]),
      (''<p1>'', [[''<x>''], [''t'']]),
      (''<p2>'', [[''<x>''], [''t'']]),
      (''<p3>'', [[''<x>''], [''t'']]),
      (''<p4>'', [[''<x>''], [''t'']]),
      (''<x>'', [[''<y>'']]),
      (''<y>'', [[''a'']])]"

definition acyclic_initial_costs :: symbol_costs where
  "acyclic_initial_costs =
     [(''<start>'', 5), (''<p1>'', 1), (''<p2>'', 1), (''<p3>'', 1), (''<p4>'', 1), (''<x>'', 1), (''<y>'', 0)]"

definition acyclic_costs :: symbol_costs where
  "acyclic_costs =
     [(''<start>'', 5), (''<p1>'', 2), (''<p2>'', 2), (''<p3>'', 2), (''<p4>'', 1), (''<x>'', 1), (''<y>'', 0)]"

text \<open>All paths of nonterminals of this grammar that start at the root and have no cycle.\<close>

definition acyclic_root_paths :: "Node list list" where
  "acyclic_root_paths =
     concat (map (\<lambda>p. [[NonterminalNode ''<start>'', NonterminalNode p],
                         [NonterminalNode ''<start>'', NonterminalNode p, NonterminalNode ''<x>''],
                         [NonterminalNode ''<start>'', NonterminalNode p, NonterminalNode ''<x>'',
                          NonterminalNode ''<y>'']])
                 [''<p1>'', ''<p2>'', ''<p3>'', ''<p4>''])"



subsection \<open>Paths of nonterminals and decreasing costs\<close>

definition nonterminal_successors :: "CanonicalGrammar \<Rightarrow> Node \<Rightarrow> Node list" where
  "nonterminal_successors g n =
     filter (\<lambda>m. isinstance_NonterminalNode m \<and> \<not> is_ChoiceNode m)
       (concat (map (\<lambda>c. if is_ChoiceNode c then node_children g c else [c]) (node_children g n)))"

fun graph_path :: "CanonicalGrammar \<Rightarrow> Node list \<Rightarrow> bool" where
  "graph_path g (a # b # rest) = (b \<in> set (nonterminal_successors g a) \<and> graph_path g (b # rest))"
| "graph_path g _ = True"

definition cycle_free_root_path :: "CanonicalGrammar \<Rightarrow> Node list \<Rightarrow> bool" where
  "cycle_free_root_path g p = (p \<noteq> [] \<and> hd p = graph_root \<and> graph_path g p \<and> distinct p)"

fun strictly_decreasing :: "symbol_costs \<Rightarrow> string list \<Rightarrow> bool" where
  "strictly_decreasing result (parent # child # rest) =
     ((case (map_of result parent, map_of result child) of
         (Some x, Some y) \<Rightarrow> x \<ge> y + 1
       | _ \<Rightarrow> False) \<and> strictly_decreasing result (child # rest))"
| "strictly_decreasing result _ = True"

definition costs_le :: "symbol_costs \<Rightarrow> symbol_costs \<Rightarrow> bool" where
  "costs_le r r' = (\<forall>s v. map_of r s = Some v \<longrightarrow> (\<exists>v'. map_of r' s = Some v' \<and> v \<le> v'))"

section \<open>Formulas\<close>

text \<open>Modelled from the spec: the formula language of the constraint module, which is not
  part of the solver module. Atoms are SMT atoms and structural and semantic predicate
  atoms, whose arguments are variables or trees; quantifiers bind a variable inside a
  variable or tree (a universal quantifier records the identities of the trees it has
  been matched against); conjunction, disjunction and negation are binary.\<close>

datatype arg = VarArg Variable | TreeArg DerivationTree

datatype Formula =
  SMTAtom SMTFormula
| StructuralPredicateFormula string "arg list"
| SemanticPredicateFormula string "arg list"
| ForallFormula Variable arg Formula "nat list"
| ExistsFormula Variable arg Formula
| IntroduceNumericConstantFormula Variable Formula
| ConjunctiveFormula Formula Formula
| DisjunctiveFormula Formula Formula
| NegatedFormula Formula

text \<open>Modelled from the spec: the constants \<open>true\<close> and \<open>false\<close> are SMT atoms, and the
  connectives \<open>&\<close>, \<open>|\<close> and \<open>-\<close> of formulas simplify them away.\<close>

definition smt :: "z3 \<Rightarrow> Formula" where
  "smt b = SMTAtom \<lparr> formula = b, free_variables = [], instantiated_variables = [], substitutions = [] \<rparr>"

definition sc_true :: Formula where "sc_true = smt (BoolVal True)"
definition sc_false :: Formula where "sc_false = smt (BoolVal False)"

definition and_f :: "Formula \<Rightarrow> Formula \<Rightarrow> Formula" where
  "and_f a b =
     (if a = sc_false \<or> b = sc_false then sc_false
      else if a = sc_true then b
      else if b = sc_true then a
      else ConjunctiveFormula a b)"

definition or_f :: "Formula \<Rightarrow> Formula \<Rightarrow> Formula" where
  "or_f a b =
     (if a = sc_true \<or> b = sc_true then sc_true
      else if a = sc_false then b
      else if b = sc_false then a
      else DisjunctiveFormula a b)"

fun neg_f :: "Formula \<Rightarrow> Formula" where
  "neg_f (NegatedFormula f) = f"
| "neg_f (SMTAtom a) = SMTAtom (a\<lparr>formula := z3_not (formula a)\<rparr>)"
| "neg_f f = NegatedFormula f"


fun split_disjunction :: "Formula \<Rightarrow> Formula list" where
  "split_disjunction (DisjunctiveFormula a b) = split_disjunction a @ split_disjunction b"
| "split_disjunction f = [f]"


text \<open>Modelled from the spec: \<open>to_nnf\<close> pushes negations to the atoms, \<open>to_dnf\<close>
  distributes conjunction over disjunction outside of the quantifiers.\<close>

fun convert_to_nnf :: "bool \<Rightarrow> Formula \<Rightarrow> Formula" where
  "convert_to_nnf negate (NegatedFormula f) = convert_to_nnf (\<not> negate) f"
| "convert_to_nnf negate (ConjunctiveFormula a b) =
     (if negate then or_f (convert_to_nnf negate a) (convert_to_nnf negate b)
      else and_f (convert_to_nnf negate a) (convert_to_nnf negate b))"
| "convert_to_nnf negate (DisjunctiveFormula a b) =
     (if negate then and_f (convert_to_nnf negate a) (convert_to_nnf negate b)
      else or_f (convert_to_nnf negate a) (convert_to_nnf negate b))"
| "convert_to_nnf negate (ForallFormula v t f m) =
     (if negate then ExistsFormula v t (convert_to_nnf negate f)
      else ForallFormula v t (convert_to_nnf negate f) m)"
| "convert_to_nnf negate (ExistsFormula v t f) =
     (if negate then ForallFormula v t (convert_to_nnf negate f) []
      else ExistsFormula v t (convert_to_nnf negate f))"
| "convert_to_nnf negate (IntroduceNumericConstantFormula v f) =
     IntroduceNumericConstantFormula v (convert_to_nnf negate f)"
| "convert_to_nnf negate f = (if negate then neg_f f else f)"

fun convert_to_dnf :: "Formula \<Rightarrow> Formula" where
  "convert_to_dnf (ConjunctiveFormula a b) =
     foldl or_f sc_false
       (concat (map (\<lambda>c. map (\<lambda>d. and_f c d) (split_disjunction (convert_to_dnf b)))
                    (split_disjunction (convert_to_dnf a))))"
| "convert_to_dnf (DisjunctiveFormula a b) = or_f (convert_to_dnf a) (convert_to_dnf b)"
| "convert_to_dnf f = f"

text \<open>Modelled from the spec: \<open>replace_subformula(old, new)\<close> replaces every occurrence
  of a sub-formula and rebuilds the formula with the connectives above.\<close>

fun replace_formula :: "Formula \<Rightarrow> Formula \<Rightarrow> Formula \<Rightarrow> Formula" where
  "replace_formula (ConjunctiveFormula a b) t w =
     (if ConjunctiveFormula a b = t then w
      else and_f (replace_formula a t w) (replace_formula b t w))"
| "replace_formula (DisjunctiveFormula a b) t w =
     (if DisjunctiveFormula a b = t then w
      else or_f (replace_formula a t w) (replace_formula b t w))"
| "replace_formula (NegatedFormula a) t w =
     (if NegatedFormula a = t then w else neg_f (replace_formula a t w))"
| "replace_formula (ForallFormula v i a m) t w =
     (if ForallFormula v i a m = t then w else ForallFormula v i (replace_formula a t w) m)"
| "replace_formula (ExistsFormula v i a) t w =
     (if ExistsFormula v i a = t then w else ExistsFormula v i (replace_formula a t w))"
| "replace_formula (IntroduceNumericConstantFormula v a) t w =
     (if IntroduceNumericConstantFormula v a = t then w
      else IntroduceNumericConstantFormula v (replace_formula a t w))"
| "replace_formula f t w = (if f = t then w else f)"

fun is_predicate :: "Formula \<Rightarrow> bool" where
  "is_predicate (StructuralPredicateFormula _ _) = True"
| "is_predicate (SemanticPredicateFormula _ _) = True"
| "is_predicate _ = False"

fun is_ForallFormula :: "Formula \<Rightarrow> bool" where
  "is_ForallFormula (ForallFormula _ _ _ _) = True"
| "is_ForallFormula _ = False"

fun is_DisjunctiveFormula :: "Formula \<Rightarrow> bool" where
  "is_DisjunctiveFormula (DisjunctiveFormula _ _) = True"
| "is_DisjunctiveFormula _ = False"

text \<open>The shapes of formulas: a literal is a formula that is no conjunction and no
  disjunction and has negations only in front of predicate atoms; a clause is a
  conjunction of literals: a single disjunct of a disjunctive normal form.\<close>

fun is_literal :: "Formula \<Rightarrow> bool" where
  "is_literal (ConjunctiveFormula _ _) = False"
| "is_literal (DisjunctiveFormula _ _) = False"
| "is_literal (NegatedFormula f) = is_predicate f"
| "is_literal _ = True"

fun is_clause :: "Formula \<Rightarrow> bool" where
  "is_clause (ConjunctiveFormula a b) = (is_clause a \<and> is_clause b)"
| "is_clause f = is_literal f"

fun nnf_form :: "Formula \<Rightarrow> bool" where
  "nnf_form (ConjunctiveFormula a b) = (nnf_form a \<and> nnf_form b)"
| "nnf_form (DisjunctiveFormula a b) = (nnf_form a \<and> nnf_form b)"
| "nnf_form f = is_literal f"

definition dnf_form :: "Formula \<Rightarrow> bool" where
  "dnf_form f = (\<forall>d \<in> set (split_disjunction f). is_clause d)"

section \<open>More on derivation trees\<close>

text \<open>Modelled from the spec: \<open>open_leaves()\<close>, the \<open>(path, node)\<close> pairs of the open
  nodes; a tree is complete when it has none. (The method has no grammar argument.)\<close>

definition open_leaves :: "DerivationTree \<Rightarrow> (Path \<times> DerivationTree) list" where
  "open_leaves t = filter (\<lambda>(p, s). children s = None) (paths t)"

definition is_open :: "DerivationTree \<Rightarrow> bool" where
  "is_open t = (open_leaves t \<noteq> [])"

definition is_complete :: "DerivationTree \<Rightarrow> bool" where
  "is_complete t = (\<not> is_open t)"

text \<open>Modelled from the spec: the structural hash depends only on the shape and the
  symbols of a tree, not on the identities. \<open>structure\<close> forgets the identities; the hash
  function itself is a parameter of the solver model.\<close>

datatype Shape = Shape string "Shape list option"

fun "structure" :: "DerivationTree \<Rightarrow> Shape" where
  "structure (DerivationTree v cs i) = Shape v (map_option (map structure) cs)"

text \<open>Modelled from the spec: \<open>replace_path\<close> yields a tree that is equal outside the
  path and has the new sub-tree at the path; the nodes on the way keep their identity.
  The solver passes paths of the tree itself.\<close>

fun replace_path :: "DerivationTree \<Rightarrow> Path \<Rightarrow> DerivationTree \<Rightarrow> DerivationTree"
  and replace_child :: "DerivationTree list \<Rightarrow> nat \<Rightarrow> Path \<Rightarrow> DerivationTree \<Rightarrow> DerivationTree list" where
  "replace_path t [] new = new"
| "replace_path (DerivationTree v None i) (k # p) new = DerivationTree v None i"
| "replace_path (DerivationTree v (Some cs) i) (k # p) new =
     DerivationTree v (Some (replace_child cs k p new)) i"
| "replace_child [] k p new = []"
| "replace_child (c # cs) 0 p new = replace_path c p new # cs"
| "replace_child (c # cs) (Suc k) p new = c # replace_child cs k p new"


section \<open>Solution states and the solver\<close>

record SolutionState =
  constraint :: Formula
  tree :: DerivationTree
  level :: int

text \<open>\<^verbatim>\<open>SolutionState(constraint, tree)\<close>: the level defaults to 0.\<close>

definition new_state :: "Formula \<Rightarrow> DerivationTree \<Rightarrow> SolutionState" where
  "new_state c t = \<lparr> constraint = c, tree = t, level = 0 \<rparr>"


record CostWeightVector =
  w_tree_closing_cost :: real
  w_vacuous_penalty :: real
  w_constraint_cost :: real
  w_derivation_depth_penalty :: real
  w_low_k_coverage_penalty :: real
  w_low_global_k_path_coverage_penalty :: real

definition weights :: "CostWeightVector \<Rightarrow> real list" where
  "weights w = [w_tree_closing_cost w, w_vacuous_penalty w, w_constraint_cost w,
                w_derivation_depth_penalty w, w_low_k_coverage_penalty w,
                w_low_global_k_path_coverage_penalty w]"

type_synonym k_path = "string list"

text \<open>The fields of the solver that never change (\<open>graph_k_paths\<close> is the set
  \<^verbatim>\<open>graph.k_paths(cost_settings.k)\<close> of the grammar graph), and the services of the formula
  module, the derivation trees, the grammar graph, the evaluator and the fuzzer, which
  the solver only calls.\<close>

record settings =
  enforce_unique_trees_in_queue :: bool
  max_number_free_instantiations :: int
  weight_vectors :: "CostWeightVector list"
  cost_phase_lengths :: "int list"
  symbol_costs :: "(string \<times> int) list"
  debug :: bool
  assertions_activated :: bool
  cost_settings_k :: int
  graph_k_paths :: "k_path list"

type_synonym match = "(Variable \<times> Path \<times> DerivationTree) list"

text \<open>Modelled from the spec: the evaluation of a semantic predicate is not ready, or a
  Boolean, or a substitution of trees.\<close>

datatype SemPredEvalResult =
  NotReady
| EvalBool bool
| EvalResult "(DerivationTree \<times> DerivationTree) list"

record services =
  hash_structure :: "Shape \<Rightarrow> int"
  evaluate :: "Formula \<Rightarrow> DerivationTree \<Rightarrow> bool"
  predicate_evaluate :: "string \<Rightarrow> arg list \<Rightarrow> DerivationTree \<Rightarrow> bool"
  semantic_evaluate :: "Formula \<Rightarrow> SemPredEvalResult"
  predicate_order :: "Formula \<Rightarrow> int"
  state_hash :: "Formula \<Rightarrow> DerivationTree \<Rightarrow> int"
  matches_for_quantified_formula :: "Formula \<Rightarrow> match list"
  quantified_formula_might_match :: "Formula \<Rightarrow> Path \<Rightarrow> DerivationTree \<Rightarrow> bool"
  tree_k_paths :: "DerivationTree \<Rightarrow> k_path list"
  k_coverage :: "DerivationTree \<Rightarrow> int \<Rightarrow> error + real"
  compute_vacuous_penalty :: "DerivationTree \<Rightarrow> real"
  get_quantifier_chains :: "Formula \<Rightarrow> Formula list list"
  substitute_expressions :: "Formula \<Rightarrow> (arg \<times> DerivationTree) list \<Rightarrow> Formula"
  substitute_variables :: "Formula \<Rightarrow> (Variable \<times> Variable) list \<Rightarrow> Formula"
  fresh_constant :: "Variable list \<Rightarrow> Variable \<Rightarrow> Variable"
  ensure_unique_bound_variables :: "Formula \<Rightarrow> Formula"
  fuzz :: "nat \<Rightarrow> Path \<Rightarrow> string \<Rightarrow> DerivationTree"
  binds_tree :: "Formula \<Rightarrow> DerivationTree \<Rightarrow> bool"

definition structural_hash :: "services \<Rightarrow> DerivationTree \<Rightarrow> int" where
  "structural_hash V t = hash_structure V (structure t)"

record ISLaSolver =
  queue :: "(real \<times> SolutionState) list"
  tree_hashes_in_queue :: "int set"
  covered_k_paths :: "k_path list"
  current_cost_phase :: nat
  current_cost_phase_since :: int
  current_level :: int

section \<open>The cost model\<close>


fun map_err :: "('a \<Rightarrow> error + 'b) \<Rightarrow> 'a list \<Rightarrow> error + 'b list" where
  "map_err f [] = Inr []"
| "map_err f (x # xs) =
     (case f x of
        Inl e \<Rightarrow> Inl e
      | Inr y \<Rightarrow> (case map_err f xs of Inl e \<Rightarrow> Inl e | Inr ys \<Rightarrow> Inr (y # ys)))"

definition compute_tree_closing_cost :: "DerivationTree \<Rightarrow> (string \<times> int) list \<Rightarrow> error + int" where
  "compute_tree_closing_cost t costs =
     (let nonterminals = map (\<lambda>(p, leaf). tvalue leaf) (open_leaves t) in
      if list_all (\<lambda>n. map_of costs n \<noteq> None) nonterminals
      then Inr (sum_list (map (\<lambda>n. the (map_of costs n)) nonterminals))
      else Inl KeyError)"

text \<open>Python sets of k-paths are lists read as sets: \<open>len\<close> is the number of distinct
  elements.\<close>

definition compute_global_k_coverage_cost ::
  "k_path list \<Rightarrow> k_path list \<Rightarrow> k_path list \<Rightarrow> error + real" where
  "compute_global_k_coverage_cost covered graph_paths tree_paths =
     (let num_contributed_k_paths =
            card {path \<in> set graph_paths. path \<in> set tree_paths \<and> path \<notin> set covered};
          num_missing_k_paths = int (card (set graph_paths)) - int (card (set covered))
      in if num_missing_k_paths = 0 then Inl ZeroDivisionError
         else Inr (1 - real num_contributed_k_paths / real_of_int num_missing_k_paths))"

text \<open>A Python number that is a float or, as the power of a negative float with a
  fractional exponent, complex.\<close>

datatype number = Float real | ComplexNumber

text \<open>\<^verbatim>\<open>math.prod([1 - tree.k_coverage(graph, k) for k in range(1, k + 1)]) ** (1 / float(k))\<close>:
  the product is taken first, then the exponent.\<close>

definition compute_k_coverage_cost :: "services \<Rightarrow> int \<Rightarrow> SolutionState \<Rightarrow> error + number" where
  "compute_k_coverage_cost V k st =
     (case map_err (k_coverage V (tree st)) (map int [1 ..< nat (k + 1)]) of
        Inl e \<Rightarrow> Inl e
      | Inr coverages \<Rightarrow>
          (let p = prod_list (map (\<lambda>c. 1 - c) coverages) in
           if k = 0 then Inl ZeroDivisionError
           else if 0 \<le> p then Inr (Float (p powr (1 / real_of_int k)))
           else if k = 1 then Inr (Float p)
           else Inr ComplexNumber))"

fun is_ExistsFormula :: "Formula \<Rightarrow> bool" where
  "is_ExistsFormula (ExistsFormula _ _ _) = True"
| "is_ExistsFormula _ = False"

definition constraint_cost :: "Formula list list \<Rightarrow> int" where
  "constraint_cost quantifier_chains =
     sum_list (concat (map (\<lambda>c. map (\<lambda>(idx, f). int idx * (if is_ExistsFormula f then 2 else 1) + 1)
                                   (enumerate 0 c)) quantifier_chains))"

text \<open>\<^verbatim>\<open>assert all(c >= 0 for c in costs)\<close>: the comparison of a complex number raises.\<close>

fun all_nonnegative :: "number list \<Rightarrow> error + bool" where
  "all_nonnegative [] = Inr True"
| "all_nonnegative (Float c # cs) = (if 0 \<le> c then all_nonnegative cs else Inr False)"
| "all_nonnegative (ComplexNumber # cs) = Inl TypeError"

fun float_value :: "number \<Rightarrow> real" where
  "float_value (Float c) = c"
| "float_value ComplexNumber = 0"

text \<open>Modelled from the spec: the priority is the weighted geometric mean of the cost
  components under the weight vector (the helper \<open>weighted_geometric_mean\<close> is not part
  of the solver module). A power with exponent 0 is 1.\<close>

definition power_float :: "real \<Rightarrow> real \<Rightarrow> real" where
  "power_float v w = (if w = 0 then 1 else v powr w)"

definition weighted_geometric_mean :: "real list \<Rightarrow> real list \<Rightarrow> error + real" where
  "weighted_geometric_mean seq ws =
     (if sum_list ws = 0 then Inl ZeroDivisionError
      else Inr (power_float (prod_list (map (\<lambda>(v, w). power_float v w) (zip seq ws))) (1 / sum_list ws)))"

text \<open>The function \<open>compute_cost\<close> of the module: the six cost components in the order
  in which they are computed, the assertion, and their mean.\<close>

definition compute_cost_of ::
  "settings \<Rightarrow> services \<Rightarrow> SolutionState \<Rightarrow> CostWeightVector \<Rightarrow> k_path list \<Rightarrow> error + real" where
  "compute_cost_of C V st w covered =
     (case compute_tree_closing_cost (tree st) (symbol_costs C) of
        Inl e \<Rightarrow> Inl e
      | Inr tree_closing_cost \<Rightarrow>
          (let ccost = constraint_cost (get_quantifier_chains V (constraint st));
               vacuous_penalty =
                 (if w_vacuous_penalty w = 0 then 0 else compute_vacuous_penalty V (tree st))
           in case compute_k_coverage_cost V (cost_settings_k C) st of
                Inl e \<Rightarrow> Inl e
              | Inr k_cov_cost \<Rightarrow>
                  (case compute_global_k_coverage_cost covered (graph_k_paths C)
                          (tree_k_paths V (tree st)) of
                     Inl e \<Rightarrow> Inl e
                   | Inr global_k_path_cost \<Rightarrow>
                       (let costs = [Float (real_of_int tree_closing_cost), Float vacuous_penalty,
                                     Float (real_of_int ccost), Float (real_of_int (level st)),
                                     k_cov_cost, Float global_k_path_cost]
                        in case all_nonnegative costs of
                             Inl e \<Rightarrow> Inl e
                           | Inr ok \<Rightarrow>
                               if \<not> ok then Inl AssertionError
                               else weighted_geometric_mean (map float_value costs) (weights w)))))"

text \<open>The method \<open>compute_cost\<close>: a state whose constraint is \<open>true\<close> costs 0; otherwise
  the cost phase is rotated if it is over, and the cost is computed under the weight
  vector of the phase.\<close>

definition rotate_cost_phase :: "settings \<Rightarrow> ISLaSolver \<Rightarrow> error + ISLaSolver" where
  "rotate_cost_phase C S =
     (if \<not> current_cost_phase S < length (cost_phase_lengths C) then Inl IndexError
      else if int (length (queue S)) - current_cost_phase_since S
                > cost_phase_lengths C ! current_cost_phase S
      then (if weight_vectors C = [] then Inl ZeroDivisionError
            else Inr (S\<lparr>current_cost_phase_since := int (length (queue S)),
                         current_cost_phase :=
                           (current_cost_phase S + 1) mod length (weight_vectors C)\<rparr>))
      else Inr S)"

definition compute_cost :: "settings \<Rightarrow> services \<Rightarrow> ISLaSolver \<Rightarrow> SolutionState \<Rightarrow> error + (real \<times> ISLaSolver)" where
  "compute_cost C V S st =
     (if constraint st = sc_true then Inr (0, S)
      else
        (case rotate_cost_phase C S of
           Inl e \<Rightarrow> Inl e
         | Inr S1 \<Rightarrow>
             if \<not> current_cost_phase S1 < length (weight_vectors C) then Inl IndexError
             else
               (case compute_cost_of C V st (weight_vectors C ! current_cost_phase S1)
                       (covered_k_paths S1) of
                  Inl e \<Rightarrow> Inl e
                | Inr c \<Rightarrow> Inr (c, S1))))"

section \<open>Preparing and enqueuing new states\<close>


text \<open>Modelled from the spec: \<open>VariablesCollector.collect\<close>, the variables that occur in a
  formula.\<close>

fun arg_variables :: "arg list \<Rightarrow> Variable list" where
  "arg_variables [] = []"
| "arg_variables (VarArg v # as) = v # arg_variables as"
| "arg_variables (TreeArg t # as) = arg_variables as"

fun collect_variables :: "Formula \<Rightarrow> Variable list" where
  "collect_variables (SMTAtom a) = free_variables a"
| "collect_variables (StructuralPredicateFormula n args) = arg_variables args"
| "collect_variables (SemanticPredicateFormula n args) = arg_variables args"
| "collect_variables (ForallFormula v i a m) = v # arg_variables [i] @ collect_variables a"
| "collect_variables (ExistsFormula v i a) = v # arg_variables [i] @ collect_variables a"
| "collect_variables (IntroduceNumericConstantFormula v a) = v # collect_variables a"
| "collect_variables (ConjunctiveFormula a b) = collect_variables a @ collect_variables b"
| "collect_variables (DisjunctiveFormula a b) = collect_variables a @ collect_variables b"
| "collect_variables (NegatedFormula a) = collect_variables a"









definition establish_invariant :: "SolutionState \<Rightarrow> SolutionState list" where
  "establish_invariant st =
     map (\<lambda>disjunct. new_state disjunct (tree st))
         (split_disjunction (convert_to_dnf (convert_to_nnf False (constraint st))))"

















section \<open>The main loop\<close>



















datatype rule =
  StructuralPredicates
| NumericConstantIntroduction
| UniversalMatching
| Expansion
| SMTElimination
| SemanticPredicates
| ExistentialElimination
| FreeInstantiation




section \<open>Construction of the solver\<close>

definition top_constants :: "services \<Rightarrow> Formula \<Rightarrow> Variable list" where
  "top_constants V f =
     remdups (filter (\<lambda>c. is_Constant c \<and> \<not> is_numeric c)
                     (collect_variables (ensure_unique_bound_variables V f)))"

fun push_initial_states ::
  "settings \<Rightarrow> services \<Rightarrow> SolutionState list \<Rightarrow> ISLaSolver \<Rightarrow> error + ISLaSolver" where
  "push_initial_states C V [] S = Inr S"
| "push_initial_states C V (st # sts) S =
     (case compute_cost C V S st of
        Inl e \<Rightarrow> Inl e
      | Inr (cost, S1) \<Rightarrow> push_initial_states C V sts (S1\<lparr>queue := queue S1 @ [(cost, st)]\<rparr>))"

fun debug_costs ::
  "settings \<Rightarrow> services \<Rightarrow> SolutionState list \<Rightarrow> ISLaSolver \<Rightarrow> error + ISLaSolver" where
  "debug_costs C V [] S = Inr S"
| "debug_costs C V (st # sts) S =
     (case compute_cost C V S st of
        Inl e \<Rightarrow> Inl e
      | Inr (cost, S1) \<Rightarrow> debug_costs C V sts S1)"

definition initial_tree :: "Variable \<Rightarrow> nat \<Rightarrow> DerivationTree" where
  "initial_tree top_constant nid = DerivationTree (n_type top_constant) None nid"

definition initial_state :: "services \<Rightarrow> Formula \<Rightarrow> Variable \<Rightarrow> nat \<Rightarrow> SolutionState" where
  "initial_state V f top_constant nid =
     new_state (substitute_expressions V (ensure_unique_bound_variables V f)
                  [(VarArg top_constant, initial_tree top_constant nid)])
               (initial_tree top_constant nid)"

text \<open>\<open>__init__\<close>, from the assertion on the constants of the formula on. The symbol
  costs are a setting; \<open>nid\<close> is the identifier that the initial tree receives. The
  result is the top constant and the solver with its queue.\<close>

definition init :: "settings \<Rightarrow> services \<Rightarrow> Formula \<Rightarrow> nat \<Rightarrow> error + (Variable \<times> ISLaSolver)" where
  "init C V f nid =
     (let tcs = top_constants V f in
      if length tcs \<noteq> 1 then Inl AssertionError
      else
        (let top_constant = hd tcs;
             initial_states = establish_invariant (initial_state V f top_constant nid);
             S0 = \<lparr> queue = [],
                    tree_hashes_in_queue = {structural_hash V (initial_tree top_constant nid)},
                    covered_k_paths = [],
                    current_cost_phase = 0,
                    current_cost_phase_since = 0,
                    current_level = 0 \<rparr>
         in case push_initial_states C V initial_states S0 of
              Inl e \<Rightarrow> Inl e
            | Inr S1 \<Rightarrow>
                (if debug C then
                   (case debug_costs C V initial_states S1 of
                      Inl e \<Rightarrow> Inl e
                    | Inr S2 \<Rightarrow> Inr (top_constant, S2))
                 else Inr (top_constant, S1))))"

section \<open>Invariants of the solver\<close>

text \<open>The covered k-paths are a strict subset of the k-paths of the grammar graph.\<close>

definition k_inv :: "settings \<Rightarrow> ISLaSolver \<Rightarrow> bool" where
  "k_inv C S = (set (covered_k_paths S) \<subset> set (graph_k_paths C))"

section \<open>A small solver: the grammar \<open><start> ::= "a"\<close>\<close>

definition ex_start :: Variable where
  "ex_start = Constant ''start'' ''<start>''"

definition ex_formula :: Formula where
  "ex_formula = SMTAtom \<lparr> formula = Z3Atom ''(= start a)'', free_variables = [ex_start],
                           instantiated_variables = [], substitutions = [] \<rparr>"

fun ex_substitute_arg :: "(arg \<times> DerivationTree) list \<Rightarrow> arg \<Rightarrow> arg" where
  "ex_substitute_arg subst a = (case map_of subst a of Some t \<Rightarrow> TreeArg t | None \<Rightarrow> a)"

fun ex_substitute_expressions :: "Formula \<Rightarrow> (arg \<times> DerivationTree) list \<Rightarrow> Formula" where
  "ex_substitute_expressions (SMTAtom a) subst =
     SMTAtom (a\<lparr> free_variables := filter (\<lambda>v. map_of subst (VarArg v) = None) (free_variables a),
                 instantiated_variables :=
                   instantiated_variables a @ filter (\<lambda>v. map_of subst (VarArg v) \<noteq> None) (free_variables a),
                 substitutions :=
                   substitutions a @
                   map (\<lambda>v. (v, the (map_of subst (VarArg v))))
                       (filter (\<lambda>v. map_of subst (VarArg v) \<noteq> None) (free_variables a)) \<rparr>)"
| "ex_substitute_expressions (StructuralPredicateFormula n args) subst =
     StructuralPredicateFormula n (map (ex_substitute_arg subst) args)"
| "ex_substitute_expressions f subst = f"

fun ex_hash :: "Shape \<Rightarrow> int" and ex_hashes :: "Shape list \<Rightarrow> int" where
  "ex_hash (Shape v None) = 1 + int (length v)"
| "ex_hash (Shape v (Some cs)) = 2 + int (length v) + ex_hashes cs"
| "ex_hashes [] = 0"
| "ex_hashes (c # cs) = 3 * ex_hash c + ex_hashes cs"

definition ex_tree_a :: "nat \<Rightarrow> DerivationTree" where
  "ex_tree_a i = DerivationTree ''<start>'' (Some [DerivationTree ''a'' (Some []) (Suc i)]) i"

definition ex_weights :: CostWeightVector where
  "ex_weights = \<lparr> w_tree_closing_cost = 11, w_vacuous_penalty = 0, w_constraint_cost = 3,
                   w_derivation_depth_penalty = 5, w_low_k_coverage_penalty = 20,
                   w_low_global_k_path_coverage_penalty = 10 \<rparr>"

definition ex_settings :: settings where
  "ex_settings = \<lparr> enforce_unique_trees_in_queue = True, max_number_free_instantiations = 2,
       weight_vectors = [ex_weights], cost_phase_lengths = [200],
       symbol_costs = [(''<start>'', 1)], debug = False, assertions_activated = True,
       cost_settings_k = 2, graph_k_paths = [[''<start>'', ''a'']] \<rparr>"

definition ex_services :: services where
  "ex_services = \<lparr> hash_structure = ex_hash,
       evaluate = (\<lambda>f t. f = sc_true),
       predicate_evaluate = (\<lambda>n args t. True),
       semantic_evaluate = (\<lambda>f. NotReady),
       predicate_order = (\<lambda>f. 0),
       state_hash = (\<lambda>f t. 0),
       matches_for_quantified_formula = (\<lambda>f. []),
       quantified_formula_might_match = (\<lambda>f p t. False),
       tree_k_paths = (\<lambda>t. if is_complete t then [[''<start>'', ''a'']] else []),
       k_coverage = (\<lambda>t i. Inr (if is_complete t then 1 else 0)),
       compute_vacuous_penalty = (\<lambda>t. 0),
       get_quantifier_chains = (\<lambda>f. []),
       substitute_expressions = ex_substitute_expressions,
       substitute_variables = (\<lambda>f subst. f),
       fresh_constant = (\<lambda>used c. c),
       ensure_unique_bound_variables = (\<lambda>f. f),
       fuzz = (\<lambda>rnd path s. ex_tree_a (100 + 2 * rnd)),
       binds_tree = (\<lambda>f t. False) \<rparr>"


definition ex_open_tree :: DerivationTree where
  "ex_open_tree = DerivationTree ''<start>'' None 0"

definition ex_initial_constraint :: Formula where
  "ex_initial_constraint = SMTAtom \<lparr> formula = Z3Atom ''(= start a)'', free_variables = [],
       instantiated_variables = [ex_start], substitutions = [(ex_start, ex_open_tree)] \<rparr>"

definition ex_initial_cost :: real where
  "ex_initial_cost =
     power_float (prod_list (map (\<lambda>(v, w). power_float v w) (zip [1, 0, 0, 0, 1, 1] (weights ex_weights))))
       (1 / sum_list (weights ex_weights))"

definition ex_solver :: "(real \<times> SolutionState) list \<Rightarrow> ISLaSolver" where
  "ex_solver q = \<lparr> queue = q, tree_hashes_in_queue = {structural_hash ex_services ex_open_tree},
       covered_k_paths = [], current_cost_phase = 0, current_cost_phase_since = 0,
       current_level = 0 \<rparr>"


text \<open>The same grammar when its graph has no path of \<open>k\<close> nodes.\<close>

definition ex_settings_no_k_paths :: settings where
  "ex_settings_no_k_paths = ex_settings\<lparr>graph_k_paths := []\<rparr>"

definition ex_services_no_k_paths :: services where
  "ex_services_no_k_paths = ex_services\<lparr>tree_k_paths := (\<lambda>t. [])\<rparr>"

text \<open>A formula that is one structural predicate atom about the constant.\<close>

definition ex_predicate_formula :: Formula where
  "ex_predicate_formula = StructuralPredicateFormula ''p'' [VarArg ex_start]"

definition ex_predicate_constraint :: Formula where
  "ex_predicate_constraint = StructuralPredicateFormula ''p'' [TreeArg ex_open_tree]"

section \<open>Properties of the SMT bridge\<close>













lemma qf_models_next_id: "qf_models E P (st\<lparr>next_id := n\<rparr>) = qf_models E P st"
  by (simp add: qf_models_def)










lemma ex_run:
  "solve_quantifier_free_formula ex_smt_env 10 0 [ex_atom (Z3Atom ''p'')] = Inr (solutions ex_state)"
  by code_simp





section \<open>Properties of the symbol costs\<close>

lemma ex_costs: "compute_symbol_costs ex_grammar ex_initial_costs = Some (Inr [(''<start>'', 4), (''<a>'', 3), (''<b>'', 2)])"
  by code_simp

text \<open>
  With two mutually recursive nonterminals both orders of the two occur on a cycle-free
  path from the root, so no costs can decrease along all of them: \<open>compute_symbol_costs\<close>
  returns the costs 4, 3 and 2 for \<open><start>\<close>, \<open><a>\<close> and \<open><b>\<close>, and on the path
  \<open><start>, <b>, <a>\<close> the cost of \<open><b>\<close> is below that of its child \<open><a>\<close>.
\<close>

lemma compute_symbol_costs_mutual_recursion:
  "compute_symbol_costs ex_grammar ex_initial_costs
       = Some (Inr [(''<start>'', 4), (''<a>'', 3), (''<b>'', 2)]) \<and>
   cycle_free_root_path ex_grammar
       [NonterminalNode ''<start>'', NonterminalNode ''<b>'', NonterminalNode ''<a>''] \<and>
   \<not> strictly_decreasing [(''<start>'', 4), (''<a>'', 3), (''<b>'', 2)]
       (map symbol [NonterminalNode ''<start>'', NonterminalNode ''<b>'', NonterminalNode ''<a>''])"
  by code_simp

lemma fix_pair_other:
  "fix_pair a b r = Inr r' \<Longrightarrow> s \<noteq> a \<Longrightarrow> map_of r' s = map_of r s"
  by (auto simp: fix_pair_def update_conv' split: option.splits if_splits)

lemma fix_pair_mono:
  "fix_pair a b r = Inr r' \<Longrightarrow> map_of r s = Some v \<Longrightarrow> \<exists>v'. map_of r' s = Some v' \<and> v \<le> v'"
  by (auto simp: fix_pair_def update_conv' split: option.splits if_splits)

lemma fix_pair_dec:
  "fix_pair a b r = Inr r' \<Longrightarrow> a \<noteq> b \<Longrightarrow>
     \<exists>x y. map_of r' a = Some x \<and> map_of r' b = Some y \<and> x \<ge> y + 1"
  by (auto simp: fix_pair_def update_conv' split: option.splits if_splits)

lemma strictly_decreasing_cong:
  "(\<And>s. s \<in> set p \<Longrightarrow> map_of r' s = map_of r s) \<Longrightarrow> strictly_decreasing r' p = strictly_decreasing r p"
  by (induction r p rule: strictly_decreasing.induct) auto

lemma fix_path_decreasing:
  "distinct path \<Longrightarrow> fix_path path r = Inr r' \<Longrightarrow> strictly_decreasing r' path"
proof (induction path r arbitrary: r' rule: fix_path.induct)
  case (1 source target rest result)
  from "1.prems"(2) obtain r1 where r1: "fix_path (target # rest) result = Inr r1"
    and fp: "fix_pair source target r1 = Inr r'"
    by (cases "fix_path (target # rest) result") auto
  from "1.prems"(1) have d: "distinct (target # rest)" and ne: "source \<noteq> target"
    and notin: "source \<notin> set (target # rest)" by auto
  from "1.IH"[OF d r1] have "strictly_decreasing r1 (target # rest)" .
  moreover have "strictly_decreasing r' (target # rest) = strictly_decreasing r1 (target # rest)"
  proof (rule strictly_decreasing_cong)
    fix s assume "s \<in> set (target # rest)"
    with notin have "s \<noteq> source" by blast
    then show "map_of r' s = map_of r1 s" by (rule fix_pair_other[OF fp])
  qed
  ultimately have tl: "strictly_decreasing r' (target # rest)" by simp
  from fix_pair_dec[OF fp ne] obtain x y where
    "map_of r' source = Some x" "map_of r' target = Some y" "x \<ge> y + 1" by blast
  with tl show ?case by simp
qed simp_all

lemma costs_le_refl: "costs_le r r"
  by (simp add: costs_le_def)

lemma costs_le_trans: "costs_le a b \<Longrightarrow> costs_le b c \<Longrightarrow> costs_le a c"
  unfolding costs_le_def by (meson order_trans)

lemma fix_pair_le: "fix_pair a b r = Inr r' \<Longrightarrow> costs_le r r'"
  unfolding costs_le_def using fix_pair_mono by blast

lemma fix_path_le: "fix_path path r = Inr r' \<Longrightarrow> costs_le r r'"
proof (induction path r arbitrary: r' rule: fix_path.induct)
  case (1 source target rest result)
  from "1.prems" obtain r1 where r1: "fix_path (target # rest) result = Inr r1"
    and fp: "fix_pair source target r1 = Inr r'"
    by (cases "fix_path (target # rest) result") auto
  from "1.IH"[OF r1] fix_pair_le[OF fp] show ?case by (rule costs_le_trans)
qed (simp_all add: costs_le_refl)

lemma fix_paths_le: "fix_paths ps r = Inr r' \<Longrightarrow> costs_le r r'"
proof (induction ps arbitrary: r)
  case Nil then show ?case by (simp add: costs_le_refl)
next
  case (Cons p ps)
  then obtain r1 where r1: "fix_path (map symbol p) r = Inr r1" and rest: "fix_paths ps r1 = Inr r'"
    by (cases "fix_path (map symbol p) r") auto
  from fix_path_le[OF r1] Cons.IH[OF rest] show ?case by (rule costs_le_trans)
qed

lemma correct_costs_le: "correct_costs g ns r = Some (Inr r') \<Longrightarrow> costs_le r r'"
proof (induction ns arbitrary: r)
  case Nil then show ?case by (simp add: costs_le_refl)
next
  case (Cons n ns)
  then obtain ps r1 where "fix_paths ps r = Inr r1" and rest: "correct_costs g ns r1 = Some (Inr r')"
    by (auto split: option.splits sum.splits)
  from fix_paths_le[OF this(1)] Cons.IH[OF rest] show ?case by (rule costs_le_trans)
qed

lemma compute_symbol_costs_le:
  "compute_symbol_costs g initial = Some (Inr final) \<Longrightarrow> costs_le initial final"
  using correct_costs_le by (simp add: compute_symbol_costs_def)

text \<open>
  The grammar without cycles has costs that decrease along every path from the root:
  raising the cost of \<open><p4>\<close> to 2, as the correction does for the other three parents
  of \<open><x>\<close>.
\<close>

lemma acyclic_costs_attainable:
  "list_all (cycle_free_root_path acyclic_grammar) acyclic_root_paths \<and>
   list_all (\<lambda>p. strictly_decreasing (AList.update ''<p4>'' 2 acyclic_costs) (map symbol p))
     acyclic_root_paths"
  by code_simp

lemma acyclic_all_paths:
  "all_paths acyclic_grammar graph_root (get_node acyclic_grammar ''<x>'') =
     Some (Inr [[NonterminalNode ''<start>'', NonterminalNode ''<p1>'', NonterminalNode ''<x>''],
                [NonterminalNode ''<start>'', NonterminalNode ''<p2>'', NonterminalNode ''<x>''],
                [NonterminalNode ''<start>'', NonterminalNode ''<p3>'', NonterminalNode ''<x>'']])"
  by code_simp

text \<open>
  Claim C7. After \<open>compute_symbol_costs\<close> the costs should decrease strictly (parent at
  least child plus one) along every cycle-free path from the root. For the grammar
  without cycles above they do not: \<open>all_paths\<close> counts the visits of a node over the
  whole enumeration and appends a node at most three times, so of the four paths from
  the root to \<open><x>\<close> the one through \<open><p4>\<close> is never corrected. The method returns the
  cost 1 for both \<open><p4>\<close> and its child \<open><x>\<close>.
\<close>

theorem compute_symbol_costs_not_decreasing:
  "compute_symbol_costs acyclic_grammar acyclic_initial_costs = Some (Inr acyclic_costs) \<and>
   map_of acyclic_costs ''<p4>'' = Some 1 \<and> map_of acyclic_costs ''<x>'' = Some 1 \<and>
   cycle_free_root_path acyclic_grammar
       [NonterminalNode ''<start>'', NonterminalNode ''<p4>'', NonterminalNode ''<x>''] \<and>
   \<not> strictly_decreasing acyclic_costs
       (map symbol [NonterminalNode ''<start>'', NonterminalNode ''<p4>'', NonterminalNode ''<x>''])"
  by code_simp

section \<open>Properties of the normal forms\<close>

lemma sc_literal [simp]: "is_literal sc_true" "is_literal sc_false"
  by (simp_all add: sc_true_def sc_false_def smt_def)

lemma sc_clause [simp]: "is_clause sc_true" "is_clause sc_false"
  by (simp_all add: sc_true_def sc_false_def smt_def)

lemma sc_nnf [simp]: "nnf_form sc_true" "nnf_form sc_false"
  by (simp_all add: sc_true_def sc_false_def smt_def)

lemma sc_split [simp]: "split_disjunction sc_true = [sc_true]" "split_disjunction sc_false = [sc_false]"
  by (simp_all add: sc_true_def sc_false_def smt_def)

lemma clause_not_disj: "is_clause f \<Longrightarrow> \<not> is_DisjunctiveFormula f"
  by (cases f) simp_all

lemma literal_clause: "is_literal f \<Longrightarrow> is_clause f"
  by (cases f) simp_all

lemma clause_split: "is_clause f \<Longrightarrow> split_disjunction f = [f]"
  by (cases f) simp_all

lemma clause_dnf: "is_clause f \<Longrightarrow> dnf_form f"
  by (simp add: dnf_form_def clause_split)

lemma and_f_clause: "is_clause a \<Longrightarrow> is_clause b \<Longrightarrow> is_clause (and_f a b)"
  by (simp add: and_f_def)

lemma and_f_nnf: "nnf_form a \<Longrightarrow> nnf_form b \<Longrightarrow> nnf_form (and_f a b)"
  by (simp add: and_f_def)

lemma or_f_nnf: "nnf_form a \<Longrightarrow> nnf_form b \<Longrightarrow> nnf_form (or_f a b)"
  by (simp add: or_f_def)

lemma or_f_dnf: "dnf_form a \<Longrightarrow> dnf_form b \<Longrightarrow> dnf_form (or_f a b)"
  by (auto simp: or_f_def dnf_form_def)

lemma foldl_or_f_dnf: "dnf_form z \<Longrightarrow> (\<And>x. x \<in> set xs \<Longrightarrow> dnf_form x) \<Longrightarrow> dnf_form (foldl or_f z xs)"
  by (induction xs arbitrary: z) (simp_all add: or_f_dnf)

lemma split_disjunction_nonempty: "split_disjunction f \<noteq> []"
  by (induction f) simp_all

lemma nnf_form_convert_to_nnf: "nnf_form (convert_to_nnf negate f)"
proof (induction negate f rule: convert_to_nnf.induct)
  case (1 negate f)
  then show ?case by simp
next
  case (2 negate a b)
  then show ?case by (simp add: and_f_nnf or_f_nnf)
next
  case (3 negate a b)
  then show ?case by (simp add: and_f_nnf or_f_nnf)
qed simp_all

lemma dnf_form_convert_to_dnf: "nnf_form f \<Longrightarrow> dnf_form (convert_to_dnf f)"
proof (induction f rule: convert_to_dnf.induct)
  case (1 a b)
  then have a: "dnf_form (convert_to_dnf a)" by simp
  obtain x0 where "x0 \<in> set (split_disjunction (convert_to_dnf a))"
    using split_disjunction_nonempty[of "convert_to_dnf a"] by (cases "split_disjunction (convert_to_dnf a)") auto
  with 1 have b: "dnf_form (convert_to_dnf b)" by simp
  show ?case
    unfolding convert_to_dnf.simps
  proof (rule foldl_or_f_dnf)
    show "dnf_form sc_false" by (simp add: clause_dnf)
  next
    fix x
    assume "x \<in> set (concat (map (\<lambda>c. map (and_f c) (split_disjunction (convert_to_dnf b)))
                    (split_disjunction (convert_to_dnf a))))"
    then obtain c d where "c \<in> set (split_disjunction (convert_to_dnf a))"
      "d \<in> set (split_disjunction (convert_to_dnf b))" "x = and_f c d" by auto
    with a b have "is_clause x" by (simp add: dnf_form_def and_f_clause)
    then show "dnf_form x" by (rule clause_dnf)
  qed
next
  case (2 a b)
  then show ?case by (simp add: or_f_dnf)
qed (simp_all add: clause_dnf literal_clause)

lemma replace_formula_literal:
  "is_literal f \<Longrightarrow> is_ForallFormula t \<Longrightarrow> is_literal w \<Longrightarrow> is_literal (replace_formula f t w)"
proof (cases f)
  case (NegatedFormula g)
  assume "is_literal f" "is_ForallFormula t" "is_literal w"
  with NegatedFormula show ?thesis by (cases g; cases t) simp_all
qed simp_all

lemma replace_formula_clause:
  "is_clause f \<Longrightarrow> is_ForallFormula t \<Longrightarrow> is_literal w \<Longrightarrow> is_clause (replace_formula f t w)"
proof (induction f)
  case (ConjunctiveFormula a b)
  then show ?case by (simp add: and_f_clause literal_clause)
next
  case (NegatedFormula g)
  then have "is_literal (NegatedFormula g)" by simp
  from replace_formula_literal[OF this NegatedFormula.prems(2,3)] show ?case by (rule literal_clause)
qed (simp_all add: literal_clause)

section \<open>Properties of the cost and of the covered k-paths\<close>

lemma power_float_nonneg: "0 \<le> power_float v w"
  by (simp add: power_float_def)

lemma weighted_geometric_mean_nonneg: "weighted_geometric_mean seq ws = Inr c \<Longrightarrow> 0 \<le> c"
  by (auto simp: weighted_geometric_mean_def power_float_nonneg split: if_splits)

lemma compute_cost_of_nonneg: "compute_cost_of C V st w covered = Inr c \<Longrightarrow> 0 \<le> c"
  unfolding compute_cost_of_def Let_def
  by (auto split: sum.splits if_splits dest: weighted_geometric_mean_nonneg)

lemma compute_cost_nonneg: "compute_cost C V S st = Inr (c, S') \<Longrightarrow> 0 \<le> c"
  unfolding compute_cost_def Let_def
  by (auto split: sum.splits if_splits dest: compute_cost_of_nonneg)

text \<open>
  Claim C8. For a state whose constraint is \<open>true\<close>, \<open>compute_cost\<close> returns 0, whatever
  the weight vectors, the cost phase, the tree, the level and the covered k-paths are,
  and it leaves the solver as it is; every cost that \<open>compute_cost\<close> returns is at least
  0, so that 0 is the least priority in the queue.
\<close>

theorem compute_cost_true_is_minimal:
  "(constraint st = sc_true \<longrightarrow> compute_cost C V S st = Inr (0, S)) \<and>
   (\<forall>st' c S'. compute_cost C V S st' = Inr (c, S') \<longrightarrow> 0 \<le> c)"
  using compute_cost_nonneg by (auto simp: compute_cost_def)












lemma k_inv_cong:
  "covered_k_paths S' = covered_k_paths S \<Longrightarrow> k_inv C S' = k_inv C S"
  by (simp add: k_inv_def)







section \<open>The small solver at work\<close>



lemma ex_establish:
  "establish_invariant (new_state ex_initial_constraint ex_open_tree)
     = [new_state ex_initial_constraint ex_open_tree]"
  by (simp add: establish_invariant_def new_state_def ex_initial_constraint_def)

lemma ex_open_leaves: "open_leaves ex_open_tree = [([], ex_open_tree)]"
  by (simp add: open_leaves_def ex_open_tree_def)

lemma ex_k_coverage_cost:
  "\<not> is_complete (tree st) \<Longrightarrow> compute_k_coverage_cost ex_services 2 st = Inr (Float 1)"
  "compute_k_coverage_cost ex_services_no_k_paths 2 st = compute_k_coverage_cost ex_services 2 st"
  by (simp_all add: compute_k_coverage_cost_def ex_services_def ex_services_no_k_paths_def upt_rec)

lemma ex_open_tree_open: "\<not> is_complete ex_open_tree"
  by (simp add: is_complete_def is_open_def open_leaves_def ex_open_tree_def)

lemma ex_compute_cost:
  "compute_cost ex_settings ex_services (ex_solver []) (new_state ex_initial_constraint ex_open_tree)
     = Inr (ex_initial_cost, ex_solver [])"
  apply (simp add: compute_cost_def new_state_def ex_initial_constraint_def sc_true_def smt_def)
  apply (simp add: ex_settings_def ex_solver_def compute_cost_of_def compute_tree_closing_cost_def
      ex_open_leaves Let_def rotate_cost_phase_def)
  apply (simp add: ex_k_coverage_cost ex_open_tree_open)
  apply (simp add: ex_open_tree_def ex_services_def constraint_cost_def is_complete_def is_open_def
      open_leaves_def compute_global_k_coverage_cost_def weighted_geometric_mean_def
      ex_initial_cost_def weights_def ex_weights_def)
  done







theorem compute_cost_true_is_minimal_witness:
  "compute_cost ex_settings ex_services (ex_solver []) (new_state sc_true ex_open_tree)
     = Inr (0, ex_solver []) \<and> 0 \<le> ex_initial_cost"
proof -
  have "constraint (new_state sc_true ex_open_tree) = sc_true" by (simp add: new_state_def)
  with compute_cost_true_is_minimal[of "new_state sc_true ex_open_tree" ex_settings ex_services "ex_solver []"]
    ex_compute_cost
  show ?thesis by blast
qed

text \<open>When the graph has no k-path the covered k-paths, which are empty, are all of
  them from the start, and the first cost that is computed divides by zero.\<close>

lemma ex_compute_cost_no_k_paths:
  "compute_cost ex_settings_no_k_paths ex_services_no_k_paths (ex_solver [])
       (new_state ex_initial_constraint ex_open_tree) = Inl ZeroDivisionError"
  apply (simp add: compute_cost_def new_state_def ex_initial_constraint_def sc_true_def smt_def)
  apply (simp add: ex_settings_def ex_settings_no_k_paths_def ex_solver_def compute_cost_of_def
      compute_tree_closing_cost_def ex_open_leaves Let_def rotate_cost_phase_def)
  apply (simp add: ex_k_coverage_cost ex_open_tree_open)
  apply (simp add: ex_open_tree_def ex_services_def ex_services_no_k_paths_def constraint_cost_def
      is_complete_def is_open_def open_leaves_def compute_global_k_coverage_cost_def)
  done

lemma ex_init_no_k_paths:
  "\<not> set (covered_k_paths (ex_solver [])) \<subset> set (graph_k_paths ex_settings_no_k_paths) \<and>
   init ex_settings_no_k_paths ex_services_no_k_paths ex_formula 0 = Inl ZeroDivisionError"
proof -
  have tc: "top_constants ex_services_no_k_paths ex_formula = [ex_start]"
    by (simp add: top_constants_def ex_services_def ex_services_no_k_paths_def ex_formula_def
        ex_start_def is_numeric_def NUMERIC_NTYPE_def)
  have ist: "initial_state ex_services_no_k_paths ex_formula ex_start 0
              = new_state ex_initial_constraint ex_open_tree"
    by (simp add: initial_state_def ex_services_def ex_services_no_k_paths_def ex_formula_def
        ex_initial_constraint_def initial_tree_def ex_open_tree_def ex_start_def)
  have i: "initial_tree ex_start 0 = ex_open_tree"
    by (simp add: initial_tree_def ex_start_def ex_open_tree_def)
  have sh: "structural_hash ex_services_no_k_paths = structural_hash ex_services"
    by (simp add: structural_hash_def ex_services_no_k_paths_def fun_eq_iff)
  have "init ex_settings_no_k_paths ex_services_no_k_paths ex_formula 0 = Inl ZeroDivisionError"
    unfolding init_def
    by (simp add: tc ist ex_establish Let_def i sh
        ex_compute_cost_no_k_paths[unfolded ex_solver_def])
  then show ?thesis
    by (simp add: ex_solver_def ex_settings_no_k_paths_def)
qed


end
